theory Spec2Isabelle
  imports Main "HOL-Library.Word" "HOL-Library.Multiset"
begin

section \<open>Errors\<close>

text \<open>
  A Go \<^verbatim>\<open>error\<close> value. The two sentinels of package \<^verbatim>\<open>store\<close>
  are constructors of their own, so that "propagates unchanged" is equality of values;
  \<^verbatim>\<open>fmt.Errorf(msg)\<close> is \<open>Errorf msg\<close>, and
  \<^verbatim>\<open>fmt.Errorf(prefix + ": %w", err)\<close> is \<open>Wrapf prefix err\<close>.
  A function that returns \<^verbatim>\<open>error\<close> returns \<open>error option\<close>
  (\<open>None\<close> is \<^verbatim>\<open>nil\<close>); one that returns a value and an error returns
  \<open>error + 'a\<close>.
\<close>

datatype error =
    ErrNotFound
  | ErrAlreadyExists
  | Errorf string
  | Wrapf string error

text \<open>The method \<^verbatim>\<open>Error()\<close>: the message of an error value.\<close>

fun Error :: "error \<Rightarrow> string" where
  "Error ErrNotFound = ''agent not found''"
| "Error ErrAlreadyExists = ''agent already exists''"
| "Error (Errorf msg) = msg"
| "Error (Wrapf prefix err) = prefix @ '': '' @ Error err"

section \<open>Data model\<close>

text \<open>
  The fields of \<^verbatim>\<open>a2a.AgentSkill\<close> and \<^verbatim>\<open>a2a.AgentCard\<close> that the
  registry and the store read. A Go string is a sequence of bytes and \<^verbatim>\<open>len\<close>
  counts bytes, as \<open>length\<close> does on \<open>string\<close>.
\<close>

record AgentSkill =
  ID :: string
  Name :: string

record AgentCard =
  Name :: string
  Description :: string
  URL :: string
  Version :: string
  Skills :: "AgentSkill list"

text \<open>A \<^verbatim>\<open>float32\<close> is carried as its 32-bit pattern; nothing computes on it.\<close>

type_synonym float32 = "32 word"

text \<open>
  A \<^verbatim>\<open>time.Time\<close> is an instant on a linear time line, here a number of
  nanoseconds. \<^verbatim>\<open>time.Now()\<close> reads the clock of the environment: every
  operation that calls it takes the reading as its argument \<open>now\<close>.
\<close>

type_synonym Time = int

record RegisteredAgent =
  ID :: string
  Card :: AgentCard
  Tags :: "string list"
  Embedding :: "float32 list option"
  CreatedAt :: Time
  UpdatedAt :: Time

text \<open>
  Offsets and limits are Go \<^verbatim>\<open>int\<close>s. The registry only compares them with
  constants and replaces them by constants, so no arithmetic can overflow and they are
  integers here.
\<close>

record AgentFilter =
  Offset :: int
  Limit :: int
  Tags :: "string list"
  Skills :: "string list"
  Query :: string

record AgentListResult =
  Agents :: "RegisteredAgent list"
  Total :: int

section \<open>Library functions used by the validators\<close>

text \<open>\<^verbatim>\<open>strings.Join(elems, sep)\<close>.\<close>

fun Join :: "string list \<Rightarrow> string \<Rightarrow> string" where
  "Join [] sep = []"
| "Join [x] sep = x"
| "Join (x # y # ys) sep = x @ sep @ Join (y # ys) sep"

text \<open>The verb \<^verbatim>\<open>%d\<close> of \<^verbatim>\<open>fmt.Sprintf\<close> on a slice index (never negative).\<close>

definition digit :: "nat \<Rightarrow> char" where
  "digit d = char_of (48 + d)"

fun itoa :: "nat \<Rightarrow> string" where
  "itoa n = (if n < 10 then [digit n] else itoa (n div 10) @ [digit (n mod 10)])"

declare itoa.simps [simp del]

section \<open>Validator\<close>

text \<open>
  The loop \<^verbatim>\<open>for i, skill := range card.Skills\<close> of
  \<^verbatim>\<open>ValidateAgentCard\<close>: \<open>i\<close> is the index of the head of the remaining
  skills and \<open>errs\<close> the slice built so far.
\<close>

fun skillLoop :: "nat \<Rightarrow> AgentSkill list \<Rightarrow> string list \<Rightarrow> string list" where
  "skillLoop i [] errs = errs"
| "skillLoop i (skill # rest) errs =
     (let errs1 = (if AgentSkill.ID skill = '''' then
                     errs @ [''skill['' @ itoa i @ ''].id is required'']
                   else errs);
          errs2 = (if AgentSkill.Name skill = '''' then
                     errs1 @ [''skill['' @ itoa i @ ''].name is required'']
                   else errs1)
      in skillLoop (Suc i) rest errs2)"

definition ValidateAgentCard :: "AgentCard \<Rightarrow> error option" where
  "ValidateAgentCard card' =
     (let errs0 = [];
          errs1 = (if AgentCard.Name card' = '''' then errs0 @ [''name is required''] else errs0);
          errs2 = (if URL card' = '''' then errs1 @ [''url is required''] else errs1);
          errs3 = (if Version card' = '''' then errs2 @ [''version is required''] else errs2);
          errs4 = (if length (AgentCard.Skills card') = 0 then
                     errs3 @ [''at least one skill is required'']
                   else errs3);
          errs = skillLoop 0 (AgentCard.Skills card') errs4
      in if length errs > 0 then
           Some (Errorf (''invalid agent card: '' @ Join errs '', ''))
         else None)"

text \<open>
  The regular expression \<^verbatim>\<open>^[a-zA-Z0-9_-]+$\<close> of \<^verbatim>\<open>agentIDPattern\<close>:
  the character class, and \<^verbatim>\<open>MatchString\<close> for the class repeated one or
  more times between the two anchors (without the multi-line flag they are the two ends
  of the text). A byte above 127 is part of a rune outside the class.
\<close>

definition inRange :: "char \<Rightarrow> char \<Rightarrow> char \<Rightarrow> bool" where
  "inRange lo hi c = ((of_char lo :: nat) \<le> of_char c \<and> (of_char c :: nat) \<le> of_char hi)"

definition agentIDClass :: "char \<Rightarrow> bool" where
  "agentIDClass c =
     (inRange CHR ''a'' CHR ''z'' c \<or> inRange CHR ''A'' CHR ''Z'' c \<or>
      inRange CHR ''0'' CHR ''9'' c \<or> c = CHR ''_'' \<or> c = CHR ''-'')"

definition agentIDPattern_MatchString :: "string \<Rightarrow> bool" where
  "agentIDPattern_MatchString s = (s \<noteq> [] \<and> list_all agentIDClass s)"

definition validateAgentID :: "string \<Rightarrow> error option" where
  "validateAgentID id' =
     (if id' = '''' then Some (Errorf ''agent_id is required'')
      else if length id' > 64 then Some (Errorf ''agent_id must be at most 64 characters'')
      else if \<not> agentIDPattern_MatchString id' then
        Some (Errorf ''agent_id must match pattern ^[a-zA-Z0-9_-]+$'')
      else None)"

text \<open>
  The violations of a card as the specification lists them: name, url, version, no skill
  at all, then for each position \<open>i\<close> of the skill sequence the id before the name.
  \<open>ValidateAgentCard\<close> above is compared with this list.
\<close>

definition skillViolations :: "nat \<Rightarrow> AgentSkill \<Rightarrow> string list" where
  "skillViolations i sk =
     (if AgentSkill.ID sk = '''' then [''skill['' @ itoa i @ ''].id is required''] else []) @
     (if AgentSkill.Name sk = '''' then [''skill['' @ itoa i @ ''].name is required''] else [])"

definition cardViolations :: "AgentCard \<Rightarrow> string list" where
  "cardViolations c =
     (if AgentCard.Name c = '''' then [''name is required''] else []) @
     (if URL c = '''' then [''url is required''] else []) @
     (if Version c = '''' then [''version is required''] else []) @
     (if AgentCard.Skills c = [] then [''at least one skill is required''] else []) @
     concat (map (\<lambda>i. skillViolations i (AgentCard.Skills c ! i))
                 [0..<length (AgentCard.Skills c)])"

section \<open>Store interface\<close>

text \<open>
  The interface \<^verbatim>\<open>store.Store\<close>: a table of methods over the state \<open>'s\<close> of
  the backend. Every method takes the state and returns the new one with its result.
  The context argument of the Go methods carries no data the registry reads.
\<close>

record 's Store =
  Ping :: "'s \<Rightarrow> error option \<times> 's"
  Close :: "'s \<Rightarrow> error option \<times> 's"
  CreateAgent :: "RegisteredAgent \<Rightarrow> 's \<Rightarrow> error option \<times> 's"
  GetAgent :: "string \<Rightarrow> 's \<Rightarrow> (error + RegisteredAgent) \<times> 's"
  ListAgents :: "AgentFilter \<Rightarrow> 's \<Rightarrow> (error + AgentListResult) \<times> 's"
  UpdateAgent :: "RegisteredAgent \<Rightarrow> 's \<Rightarrow> error option \<times> 's"
  DeleteAgent :: "string \<Rightarrow> 's \<Rightarrow> error option \<times> 's"

section \<open>Registry service\<close>

record 's RegistryService =
  store :: "'s Store"

definition NewRegistryService :: "'s Store \<Rightarrow> 's RegistryService" where
  "NewRegistryService s = \<lparr>store = s\<rparr>"

record CreateInput =
  ID :: string
  Card :: AgentCard
  Tags :: "string list"

record ListInput =
  Offset :: int
  Limit :: int
  Tags :: "string list"
  Skills :: "string list"
  Query :: string

record UpdateInput =
  ID :: string
  Card :: AgentCard
  Tags :: "string list"

definition Create ::
  "'s RegistryService \<Rightarrow> Time \<Rightarrow> CreateInput \<Rightarrow> 's \<Rightarrow> (error + RegisteredAgent) \<times> 's" where
  "Create svc now input s =
     (case validateAgentID (CreateInput.ID input) of
        Some err \<Rightarrow> (Inl err, s)
      | None \<Rightarrow>
          (case ValidateAgentCard (CreateInput.Card input) of
             Some err \<Rightarrow> (Inl err, s)
           | None \<Rightarrow>
               (let agent = \<lparr>RegisteredAgent.ID = CreateInput.ID input,
                             Card = CreateInput.Card input,
                             Tags = CreateInput.Tags input,
                             Embedding = None,
                             CreatedAt = now,
                             UpdatedAt = now\<rparr>
                in case CreateAgent (store svc) agent s of
                     (Some err, s') \<Rightarrow> (Inl err, s')
                   | (None, s') \<Rightarrow> (Inr agent, s'))))"

definition Get ::
  "'s RegistryService \<Rightarrow> string \<Rightarrow> 's \<Rightarrow> (error + RegisteredAgent) \<times> 's" where
  "Get svc id' s = GetAgent (store svc) id' s"

definition List ::
  "'s RegistryService \<Rightarrow> ListInput \<Rightarrow> 's \<Rightarrow> (error + AgentListResult) \<times> 's" where
  "List svc input s =
     (let input1 = (if ListInput.Limit input \<le> 0 then input\<lparr>ListInput.Limit := 20\<rparr>
                    else input);
          input2 = (if ListInput.Limit input1 > 100 then input1\<lparr>ListInput.Limit := 100\<rparr>
                    else input1);
          input3 = (if ListInput.Offset input2 < 0 then input2\<lparr>ListInput.Offset := 0\<rparr>
                    else input2)
      in ListAgents (store svc)
           \<lparr>AgentFilter.Offset = ListInput.Offset input3,
            Limit = ListInput.Limit input3,
            Tags = ListInput.Tags input3,
            Skills = ListInput.Skills input3,
            Query = ListInput.Query input3\<rparr> s)"

definition Update ::
  "'s RegistryService \<Rightarrow> Time \<Rightarrow> UpdateInput \<Rightarrow> 's \<Rightarrow> (error + RegisteredAgent) \<times> 's" where
  "Update svc now input s =
     (case ValidateAgentCard (UpdateInput.Card input) of
        Some err \<Rightarrow> (Inl err, s)
      | None \<Rightarrow>
          (case GetAgent (store svc) (UpdateInput.ID input) s of
             (Inl err, s1) \<Rightarrow> (Inl err, s1)
           | (Inr existing, s1) \<Rightarrow>
               (let existing1 = existing\<lparr>RegisteredAgent.Card := UpdateInput.Card input\<rparr>;
                    existing2 = existing1\<lparr>RegisteredAgent.Tags := UpdateInput.Tags input\<rparr>;
                    existing3 = existing2\<lparr>Embedding := None\<rparr>;
                    existing4 = existing3\<lparr>UpdatedAt := now\<rparr>
                in case UpdateAgent (store svc) existing4 s1 of
                     (Some err, s2) \<Rightarrow> (Inl err, s2)
                   | (None, s2) \<Rightarrow> (Inr existing4, s2))))"

definition Delete :: "'s RegistryService \<Rightarrow> string \<Rightarrow> 's \<Rightarrow> error option \<times> 's" where
  "Delete svc id' s = DeleteAgent (store svc) id' s"

subsection \<open>Fixtures of the registry tests\<close>

text \<open>
  \<^verbatim>\<open>validAgentCard()\<close> and \<^verbatim>\<open>validCreateInput()\<close> of the tests of
  package \<^verbatim>\<open>registry\<close>.
\<close>

definition validAgentCard :: AgentCard where
  "validAgentCard =
     \<lparr>AgentCard.Name = ''Test Agent'',
      Description = ''A test agent'',
      URL = ''http://localhost:9000'',
      Version = ''1.0.0'',
      Skills = [\<lparr>AgentSkill.ID = ''skill-1'', Name = ''Skill One''\<rparr>]\<rparr>"

definition validCreateInput :: CreateInput where
  "validCreateInput =
     \<lparr>CreateInput.ID = ''test-agent'', Card = validAgentCard, Tags = [''test'']\<rparr>"

section \<open>In-memory store\<close>

text \<open>
  Modelled from the spec: the in-memory implementation of \<^verbatim>\<open>store.Store\<close>
  (type \<^verbatim>\<open>MemoryStore\<close>, constructor \<^verbatim>\<open>NewMemoryStore\<close>), whose source
  file is not among the sources; only its tests are. The specification describes it as a
  mapping from id to record whose listing breaks ties by insertion order, so the state is
  the sequence of stored records in insertion order, at most one per id. The lock that
  serialises the operations makes each of them atomic, which a function on the state is.
  Records are stored and returned as copies.
\<close>

type_synonym MemoryStore = "RegisteredAgent list"

definition NewMemoryStore :: MemoryStore where
  "NewMemoryStore = []"

definition lookupAgent :: "string \<Rightarrow> MemoryStore \<Rightarrow> RegisteredAgent option" where
  "lookupAgent id' s = find (\<lambda>a. RegisteredAgent.ID a = id') s"

definition MemoryStore_Ping :: "MemoryStore \<Rightarrow> error option \<times> MemoryStore" where
  "MemoryStore_Ping s = (None, s)"

definition MemoryStore_Close :: "MemoryStore \<Rightarrow> error option \<times> MemoryStore" where
  "MemoryStore_Close s = (None, s)"

definition MemoryStore_CreateAgent ::
  "RegisteredAgent \<Rightarrow> MemoryStore \<Rightarrow> error option \<times> MemoryStore" where
  "MemoryStore_CreateAgent agent s =
     (case lookupAgent (RegisteredAgent.ID agent) s of
        Some _ \<Rightarrow> (Some ErrAlreadyExists, s)
      | None \<Rightarrow> (None, s @ [agent]))"

definition MemoryStore_GetAgent ::
  "string \<Rightarrow> MemoryStore \<Rightarrow> (error + RegisteredAgent) \<times> MemoryStore" where
  "MemoryStore_GetAgent id' s =
     (case lookupAgent id' s of
        None \<Rightarrow> (Inl ErrNotFound, s)
      | Some agent \<Rightarrow> (Inr agent, s))"

definition MemoryStore_UpdateAgent ::
  "RegisteredAgent \<Rightarrow> MemoryStore \<Rightarrow> error option \<times> MemoryStore" where
  "MemoryStore_UpdateAgent agent s =
     (case lookupAgent (RegisteredAgent.ID agent) s of
        None \<Rightarrow> (Some ErrNotFound, s)
      | Some _ \<Rightarrow>
          (None, map (\<lambda>a. if RegisteredAgent.ID a = RegisteredAgent.ID agent then agent else a) s))"

definition MemoryStore_DeleteAgent ::
  "string \<Rightarrow> MemoryStore \<Rightarrow> error option \<times> MemoryStore" where
  "MemoryStore_DeleteAgent id' s =
     (case lookupAgent id' s of
        None \<Rightarrow> (Some ErrNotFound, s)
      | Some _ \<Rightarrow> (None, filter (\<lambda>a. RegisteredAgent.ID a \<noteq> id') s))"

text \<open>
  Modelled from the spec: the three filter predicates of \<^verbatim>\<open>ListAgents\<close>.
  \<^verbatim>\<open>strings.ToLower\<close> is modelled on ASCII letters.
\<close>

definition ToLower :: "string \<Rightarrow> string" where
  "ToLower s = map (\<lambda>c. if inRange CHR ''A'' CHR ''Z'' c then char_of (of_char c + (32::nat)) else c) s"

fun HasPrefix :: "string \<Rightarrow> string \<Rightarrow> bool" where
  "HasPrefix s [] = True"
| "HasPrefix [] (p # ps) = False"
| "HasPrefix (c # cs) (p # ps) = (c = p \<and> HasPrefix cs ps)"

fun Contains :: "string \<Rightarrow> string \<Rightarrow> bool" where
  "Contains [] substr = (substr = [])"
| "Contains (c # cs) substr = (HasPrefix (c # cs) substr \<or> Contains cs substr)"

definition matchesTags :: "AgentFilter \<Rightarrow> RegisteredAgent \<Rightarrow> bool" where
  "matchesTags f a =
     (AgentFilter.Tags f = [] \<or>
      list_ex (\<lambda>t. t \<in> set (AgentFilter.Tags f)) (RegisteredAgent.Tags a))"

definition matchesSkills :: "AgentFilter \<Rightarrow> RegisteredAgent \<Rightarrow> bool" where
  "matchesSkills f a =
     (AgentFilter.Skills f = [] \<or>
      list_ex (\<lambda>sk. AgentSkill.ID sk \<in> set (AgentFilter.Skills f))
        (AgentCard.Skills (RegisteredAgent.Card a)))"

definition matchesQuery :: "AgentFilter \<Rightarrow> RegisteredAgent \<Rightarrow> bool" where
  "matchesQuery f a =
     (AgentFilter.Query f = '''' \<or>
      Contains (ToLower (AgentCard.Name (RegisteredAgent.Card a))) (ToLower (AgentFilter.Query f)) \<or>
      Contains (ToLower (Description (RegisteredAgent.Card a))) (ToLower (AgentFilter.Query f)))"

definition matchesFilter :: "AgentFilter \<Rightarrow> RegisteredAgent \<Rightarrow> bool" where
  "matchesFilter f a = (matchesTags f a \<and> matchesSkills f a \<and> matchesQuery f a)"

text \<open>
  Modelled from the spec: the stable sort by \<^verbatim>\<open>createdAt\<close> descending, as an
  insertion sort. A record is put in front of the first record that is not newer than
  it, so among records of one instant the earlier of the input stays first.
\<close>

fun insertNewestFirst :: "RegisteredAgent \<Rightarrow> RegisteredAgent list \<Rightarrow> RegisteredAgent list" where
  "insertNewestFirst a [] = [a]"
| "insertNewestFirst a (b # bs) =
     (if CreatedAt b \<le> CreatedAt a then a # b # bs else b # insertNewestFirst a bs)"

fun sortNewestFirst :: "RegisteredAgent list \<Rightarrow> RegisteredAgent list" where
  "sortNewestFirst [] = []"
| "sortNewestFirst (a # as) = insertNewestFirst a (sortNewestFirst as)"

text \<open>
  Modelled from the spec: the four steps of \<^verbatim>\<open>ListAgents\<close>: select, sort, count,
  then skip \<open>offset\<close> records and take at most \<open>limit\<close>. The registry calls it
  with \<open>offset \<ge> 0\<close> and \<open>1 \<le> limit \<le> 100\<close>; a negative number skips or takes
  nothing here.
\<close>

definition MemoryStore_ListAgents ::
  "AgentFilter \<Rightarrow> MemoryStore \<Rightarrow> (error + AgentListResult) \<times> MemoryStore" where
  "MemoryStore_ListAgents f s =
     (let matched = filter (matchesFilter f) s;
          sorted = sortNewestFirst matched;
          total = int (length sorted)
      in if AgentFilter.Offset f \<ge> total then
           (Inr \<lparr>Agents = [], Total = total\<rparr>, s)
         else
           (let start = max 0 (AgentFilter.Offset f);
                end' = min total (start + max 0 (AgentFilter.Limit f))
            in (Inr \<lparr>Agents = take (nat (end' - start)) (drop (nat start) sorted),
                     Total = total\<rparr>, s)))"

definition MemoryStore_Store :: "MemoryStore Store" where
  "MemoryStore_Store =
     \<lparr>Ping = MemoryStore_Ping,
      Close = MemoryStore_Close,
      CreateAgent = MemoryStore_CreateAgent,
      GetAgent = MemoryStore_GetAgent,
      ListAgents = MemoryStore_ListAgents,
      UpdateAgent = MemoryStore_UpdateAgent,
      DeleteAgent = MemoryStore_DeleteAgent\<rparr>"

subsection \<open>Fixture of the store tests\<close>

text \<open>
  \<^verbatim>\<open>validAgent(id)\<close> of the tests of package \<^verbatim>\<open>store\<close>, with the clock
  reading it stamps the record with.
\<close>

definition validAgent :: "string \<Rightarrow> Time \<Rightarrow> RegisteredAgent" where
  "validAgent id' now =
     \<lparr>RegisteredAgent.ID = id', Card = validAgentCard, Tags = [''test''], Embedding = None,
      CreatedAt = now, UpdatedAt = now\<rparr>"

section \<open>Qdrant store\<close>

text \<open>
  The client library \<^verbatim>\<open>github.com/qdrant/go-client/qdrant\<close> is external: its
  three functions that the store calls are parameters, acting on the state \<open>'w\<close> of
  the world outside the process (connections, the server). \<open>'c\<close> is the type of
  client handles.
\<close>

record Options =
  Host :: string
  Port :: int
  APIKey :: string
  UseTLS :: bool

record qdrant_Config =
  Host :: string
  Port :: int
  APIKey :: string
  UseTLS :: bool

record ('c, 'w) qdrant =
  NewClient :: "qdrant_Config \<Rightarrow> 'w \<Rightarrow> (error + 'c) \<times> 'w"
  HealthCheck :: "'c \<Rightarrow> 'w \<Rightarrow> error option \<times> 'w"
  Close :: "'c \<Rightarrow> 'w \<Rightarrow> error option \<times> 'w"

definition DefaultOptions :: Options where
  "DefaultOptions = \<lparr>Options.Host = ''localhost'', Port = 6334, APIKey = '''', UseTLS = False\<rparr>"

type_synonym Option = "Options \<Rightarrow> Options"

definition WithHost :: "string \<Rightarrow> Option" where
  "WithHost host = (\<lambda>options. options\<lparr>Options.Host := host\<rparr>)"

definition WithPort :: "int \<Rightarrow> Option" where
  "WithPort port = (\<lambda>options. options\<lparr>Options.Port := port\<rparr>)"

definition WithAPIKey :: "string \<Rightarrow> Option" where
  "WithAPIKey apiKey = (\<lambda>options. options\<lparr>Options.APIKey := apiKey\<rparr>)"

definition WithTLS :: "bool \<Rightarrow> Option" where
  "WithTLS useTLS = (\<lambda>options. options\<lparr>Options.UseTLS := useTLS\<rparr>)"

text \<open>The field \<^verbatim>\<open>client\<close> is a pointer: \<open>None\<close> is \<^verbatim>\<open>nil\<close>.\<close>

record 'c QdrantStore =
  client :: "'c option"

text \<open>
  A call either returns or panics; \<^verbatim>\<open>Ping\<close> on a store whose client is
  \<^verbatim>\<open>nil\<close> dereferences it.
\<close>

datatype 'a outcome = Returns 'a | Panics

definition QdrantStore_Ping ::
  "('c, 'w) qdrant \<Rightarrow> 'c QdrantStore \<Rightarrow> 'w \<Rightarrow> error option outcome \<times> 'w" where
  "QdrantStore_Ping q s w =
     (case client s of
        None \<Rightarrow> (Panics, w)
      | Some c \<Rightarrow>
          (case HealthCheck q c w of
             (Some err, w') \<Rightarrow> (Returns (Some (Wrapf ''qdrant health check failed'' err)), w')
           | (None, w') \<Rightarrow> (Returns None, w')))"

definition QdrantStore_Close ::
  "('c, 'w) qdrant \<Rightarrow> 'c QdrantStore \<Rightarrow> 'w \<Rightarrow> error option \<times> 'w" where
  "QdrantStore_Close q s w =
     (case client s of
        Some c \<Rightarrow> qdrant.Close q c w
      | None \<Rightarrow> (None, w))"

definition NewQdrantStore ::
  "('c, 'w) qdrant \<Rightarrow> Option list \<Rightarrow> 'w \<Rightarrow> (error + 'c QdrantStore) outcome \<times> 'w" where
  "NewQdrantStore q opts w =
     (let options = foldl (\<lambda>options opt. opt options) DefaultOptions opts
      in case NewClient q \<lparr>qdrant_Config.Host = Options.Host options,
                            Port = Options.Port options,
                            APIKey = Options.APIKey options,
                            UseTLS = Options.UseTLS options\<rparr> w of
           (Inl err, w1) \<Rightarrow> (Returns (Inl (Wrapf ''failed to create qdrant client'' err)), w1)
         | (Inr c, w1) \<Rightarrow>
             (let store' = \<lparr>client = Some c\<rparr>
              in case QdrantStore_Ping q store' w1 of
                   (Panics, w2) \<Rightarrow> (Panics, w2)
                 | (Returns (Some err), w2) \<Rightarrow>
                     (let (_, w3) = QdrantStore_Close q store' w2
                      in (Returns (Inl (Wrapf ''failed to connect to qdrant'' err)), w3))
                 | (Returns None, w2) \<Rightarrow> (Returns (Inr store'), w2)))"

section \<open>Health handler\<close>

text \<open>
  The interface \<^verbatim>\<open>store.HealthChecker\<close> has the one method \<^verbatim>\<open>Ping\<close>,
  a probe of the world \<open>'w\<close>; a handler holds a checker or \<^verbatim>\<open>nil\<close>. The
  probe is called with a context that expires after five seconds and is taken to return:
  its answer is \<^verbatim>\<open>nil\<close> or an error. What \<^verbatim>\<open>ServeHTTP\<close> writes to
  the response writer (the content type header, the status code, the encoded body) is
  returned as a value.
\<close>

type_synonym 'w HealthChecker = "'w \<Rightarrow> error option \<times> 'w"

record HealthChecks =
  VectorStorage :: string

record HealthResponse =
  Status :: string
  Checks :: HealthChecks

record 'w HealthHandler =
  store :: "'w HealthChecker option"

record HTTPResponse =
  ContentType :: string
  StatusCode :: int
  Body :: HealthResponse

definition StatusOK :: int where
  "StatusOK = 200"

definition StatusServiceUnavailable :: int where
  "StatusServiceUnavailable = 503"

definition NewHealthHandler :: "'w HealthChecker option \<Rightarrow> 'w HealthHandler" where
  "NewHealthHandler checker = \<lparr>store = checker\<rparr>"

definition ServeHTTP :: "'w HealthHandler \<Rightarrow> 'w \<Rightarrow> HTTPResponse \<times> 'w" where
  "ServeHTTP h w =
     (let response = \<lparr>Status = ''healthy'', Checks = \<lparr>VectorStorage = ''up''\<rparr>\<rparr>;
          statusCode = StatusOK;
          (response', statusCode', w') =
            (case HealthHandler.store h of
               None \<Rightarrow> (response, statusCode, w)
             | Some checker \<Rightarrow>
                 (case checker w of
                    (Some err, w1) \<Rightarrow>
                      (response\<lparr>Status := ''unhealthy'',
                                Checks := (Checks response)\<lparr>VectorStorage := ''down''\<rparr>\<rparr>,
                       StatusServiceUnavailable, w1)
                  | (None, w1) \<Rightarrow> (response, statusCode, w1)))
      in (\<lparr>ContentType = ''application/json'', StatusCode = statusCode', Body = response'\<rparr>, w'))"

section \<open>Validator: proofs\<close>

lemma agentIDClass_set:
  "agentIDClass c \<longleftrightarrow>
     c \<in> set ''abcdefghijklmnopqrstuvwxyzABCDEFGHIJKLMNOPQRSTUVWXYZ0123456789_-''"
  by (cases c) (simp add: agentIDClass_def inRange_def)

lemma MatchString_subset:
  "agentIDPattern_MatchString i \<longleftrightarrow>
     i \<noteq> '''' \<and>
     set i \<subseteq> set ''abcdefghijklmnopqrstuvwxyzABCDEFGHIJKLMNOPQRSTUVWXYZ0123456789_-''"
  unfolding agentIDPattern_MatchString_def list_all_iff agentIDClass_set by blast

lemma skillLoop_append:
  "skillLoop i sks errs =
     errs @ concat (map (\<lambda>k. skillViolations (i + k) (sks ! k)) [0..<length sks])"
proof (induction sks arbitrary: i errs)
  case Nil
  then show ?case by simp
next
  case (Cons sk rest)
  have shift: "map (\<lambda>k. skillViolations (i + k) ((sk # rest) ! k)) [0..<length (sk # rest)] =
      skillViolations i sk # map (\<lambda>k. skillViolations (Suc i + k) (rest ! k)) [0..<length rest]"
    by (simp add: upt_conv_Cons map_Suc_upt [symmetric] del: upt_Suc)
  show ?case
    unfolding shift by (simp add: Cons.IH Let_def skillViolations_def)
qed

lemma ValidateAgentCard_violations:
  "ValidateAgentCard c =
     (if cardViolations c = [] then None
      else Some (Errorf (''invalid agent card: '' @ Join (cardViolations c) '', '')))"
  by (simp add: ValidateAgentCard_def cardViolations_def skillLoop_append Let_def)

lemma cardViolations_Nil_iff:
  "cardViolations c = [] \<longleftrightarrow>
     AgentCard.Name c \<noteq> '''' \<and> URL c \<noteq> '''' \<and> Version c \<noteq> '''' \<and> AgentCard.Skills c \<noteq> [] \<and>
     (\<forall>sk\<in>set (AgentCard.Skills c). AgentSkill.ID sk \<noteq> '''' \<and> AgentSkill.Name sk \<noteq> '''')"
  by (simp add: cardViolations_def skillViolations_def all_set_conv_all_nth del: upt_Suc) auto

text \<open>
  Claim C4, as amended. \<open>ValidateAgentCard\<close> applied to the completely empty card (all
  fields empty, no skills) returns an error whose message is
  \<^verbatim>\<open>invalid agent card: \<close> followed by the four messages joined with a comma and
  a space, in the order name, url, version, skills.
\<close>

theorem ValidateAgentCard_empty_card:
  "map_option Error
     (ValidateAgentCard
        \<lparr>AgentCard.Name = '''', Description = '''', URL = '''', Version = '''', Skills = []\<rparr>) =
   Some ''invalid agent card: name is required, url is required, version is required, at least one skill is required''"
  by (simp add: ValidateAgentCard_def)

text \<open>
  The message on the empty card is not the bare list of the four messages: the list comes
  after the prefix that \<^verbatim>\<open>fmt.Errorf("invalid agent card: %s", ...)\<close> writes.
\<close>

theorem ValidateAgentCard_empty_card_message_has_prefix:
  "\<not> (\<exists>e. ValidateAgentCard
             \<lparr>AgentCard.Name = '''', Description = '''', URL = '''', Version = '''', Skills = []\<rparr> =
           Some e \<and>
           Error e =
           ''name is required, url is required, version is required, at least one skill is required'')"
  by (simp add: ValidateAgentCard_def)

text \<open>
  Claim C5. For every card, \<open>ValidateAgentCard\<close> returns \<^verbatim>\<open>nil\<close> exactly when
  name, url and version are non-empty, the skill list is non-empty and every skill has a
  non-empty id and name. Otherwise it fails with one error, whose message joins all the
  violations of \<open>cardViolations\<close>: name, url, version, no skill, then for each skill
  position \<open>i\<close> the messages \<^verbatim>\<open>skill[i].id is required\<close> and
  \<^verbatim>\<open>skill[i].name is required\<close>, id before name.
\<close>

theorem ValidateAgentCard_reports_all_violations:
  "(ValidateAgentCard c = None \<longleftrightarrow>
      AgentCard.Name c \<noteq> '''' \<and> URL c \<noteq> '''' \<and> Version c \<noteq> '''' \<and>
      AgentCard.Skills c \<noteq> [] \<and>
      (\<forall>sk\<in>set (AgentCard.Skills c). AgentSkill.ID sk \<noteq> '''' \<and> AgentSkill.Name sk \<noteq> '''')) \<and>
   (ValidateAgentCard c \<noteq> None \<longrightarrow>
      ValidateAgentCard c =
        Some (Errorf (''invalid agent card: '' @ Join (cardViolations c) '', '')))"
  by (simp add: ValidateAgentCard_violations cardViolations_Nil_iff)

text \<open>
  A card with an empty name and three skills, of which the second has neither id nor name
  and the third no name: all four violations are reported, in order. The valid card of
  the tests is accepted.
\<close>

theorem ValidateAgentCard_reports_all_violations_witness:
  "ValidateAgentCard
     \<lparr>AgentCard.Name = '''', Description = ''d'', URL = ''http://localhost:9000'',
      Version = ''1.0.0'',
      Skills = [\<lparr>AgentSkill.ID = ''skill-1'', Name = ''Skill One''\<rparr>,
                \<lparr>AgentSkill.ID = '''', Name = ''''\<rparr>,
                \<lparr>AgentSkill.ID = ''skill-3'', Name = ''''\<rparr>]\<rparr> =
   Some (Errorf ''invalid agent card: name is required, skill[1].id is required, skill[1].name is required, skill[2].name is required'') \<and>
   ValidateAgentCard
     \<lparr>AgentCard.Name = ''Test Agent'', Description = ''A test agent'',
      URL = ''http://localhost:9000'', Version = ''1.0.0'',
      Skills = [\<lparr>AgentSkill.ID = ''skill-1'', Name = ''Skill One''\<rparr>]\<rparr> = None"
proof -
  let ?bad = "\<lparr>AgentCard.Name = '''', Description = ''d'', URL = ''http://localhost:9000'',
      Version = ''1.0.0'',
      Skills = [\<lparr>AgentSkill.ID = ''skill-1'', Name = ''Skill One''\<rparr>,
                \<lparr>AgentSkill.ID = '''', Name = ''''\<rparr>,
                \<lparr>AgentSkill.ID = ''skill-3'', Name = ''''\<rparr>]\<rparr>"
  let ?good = "\<lparr>AgentCard.Name = ''Test Agent'', Description = ''A test agent'',
      URL = ''http://localhost:9000'', Version = ''1.0.0'',
      Skills = [\<lparr>AgentSkill.ID = ''skill-1'', Name = ''Skill One''\<rparr>]\<rparr>"
  have v: "cardViolations ?bad =
      [''name is required'', ''skill[1].id is required'', ''skill[1].name is required'',
       ''skill[2].name is required'']"
    by code_simp
  have "ValidateAgentCard ?bad \<noteq> None"
    using ValidateAgentCard_reports_all_violations [of ?bad] by simp
  then have "ValidateAgentCard ?bad =
      Some (Errorf (''invalid agent card: '' @ Join (cardViolations ?bad) '', ''))"
    using ValidateAgentCard_reports_all_violations [of ?bad] by blast
  then have bad: "ValidateAgentCard ?bad =
      Some (Errorf ''invalid agent card: name is required, skill[1].id is required, skill[1].name is required, skill[2].name is required'')"
    unfolding v by simp
  have good: "ValidateAgentCard ?good = None"
    using ValidateAgentCard_reports_all_violations [of ?good] by simp
  from bad good show ?thesis by (rule conjI)
qed

subsection \<open>Agent identifier\<close>

lemma three_checks:
  assumes "v = (if e then Some a else if l then Some b else if \<not> P then Some c else None)"
  shows "v = None \<longleftrightarrow> \<not> e \<and> \<not> l \<and> P"
    and "e \<Longrightarrow> v = Some a"
    and "\<not> e \<Longrightarrow> l \<Longrightarrow> v = Some b"
    and "\<not> e \<Longrightarrow> \<not> l \<Longrightarrow> \<not> P \<Longrightarrow> v = Some c"
  using assms by auto

lemma validateAgentID_checks:
  "validateAgentID i =
     (if i = '''' then Some (Errorf ''agent_id is required'')
      else if length i > 64 then Some (Errorf ''agent_id must be at most 64 characters'')
      else if \<not> agentIDPattern_MatchString i
        then Some (Errorf ''agent_id must match pattern ^[a-zA-Z0-9_-]+$'')
      else None)"
  by (simp add: validateAgentID_def)

lemma validateAgentID_agent_at_invalid:
  "validateAgentID ''agent@invalid'' =
     Some (Errorf ''agent_id must match pattern ^[a-zA-Z0-9_-]+$'')"
  by (simp add: validateAgentID_def agentIDPattern_MatchString_def agentIDClass_def inRange_def)

lemma validateAgentID_valid_ID_123: "validateAgentID ''valid-ID_123'' = None"
  by (simp add: validateAgentID_def agentIDPattern_MatchString_def agentIDClass_def inRange_def)

text \<open>
  Claim C6, as amended. For every string \<open>i\<close>, \<open>validateAgentID\<close> succeeds exactly
  when \<open>i\<close> is non-empty, at most 64 bytes long, and every character is a letter, a
  digit, an underscore or a hyphen. It fails with the message
  \<^verbatim>\<open>agent_id is required\<close> when \<open>i\<close> is empty, with
  \<^verbatim>\<open>agent_id must be at most 64 characters\<close> when it is longer than 64, and with
  \<^verbatim>\<open>agent_id must match pattern ^[a-zA-Z0-9_-]+$\<close> when it is non-empty, at most
  64 long and has a character outside the class. The id \<^verbatim>\<open>agent@invalid\<close> and
  every id of length 65 are rejected, and \<^verbatim>\<open>valid-ID_123\<close> is accepted.
\<close>

theorem validateAgentID_spec:
  "(validateAgentID i = None \<longleftrightarrow>
      i \<noteq> '''' \<and> length i \<le> 64 \<and>
      set i \<subseteq> set ''abcdefghijklmnopqrstuvwxyzABCDEFGHIJKLMNOPQRSTUVWXYZ0123456789_-'') \<and>
   (i = '''' \<longrightarrow> map_option Error (validateAgentID i) = Some ''agent_id is required'') \<and>
   (length i > 64 \<longrightarrow>
      map_option Error (validateAgentID i) = Some ''agent_id must be at most 64 characters'') \<and>
   (i \<noteq> '''' \<and> length i \<le> 64 \<and>
    \<not> set i \<subseteq> set ''abcdefghijklmnopqrstuvwxyzABCDEFGHIJKLMNOPQRSTUVWXYZ0123456789_-'' \<longrightarrow>
      map_option Error (validateAgentID i) =
        Some ''agent_id must match pattern ^[a-zA-Z0-9_-]+$'') \<and>
   validateAgentID ''agent@invalid'' \<noteq> None \<and>
   (length i = 65 \<longrightarrow> validateAgentID i \<noteq> None) \<and>
   validateAgentID ''valid-ID_123'' = None"
proof -
  let ?S = "set ''abcdefghijklmnopqrstuvwxyzABCDEFGHIJKLMNOPQRSTUVWXYZ0123456789_-''"
  note c = three_checks [OF validateAgentID_checks [of i]]
  have m: "i \<noteq> '''' \<Longrightarrow> agentIDPattern_MatchString i \<longleftrightarrow> set i \<subseteq> ?S"
    by (simp only: MatchString_subset simp_thms)
  have 1: "validateAgentID i = None \<longleftrightarrow> i \<noteq> '''' \<and> length i \<le> 64 \<and> set i \<subseteq> ?S"
    using c(1) m by (cases "i = ''''") (simp_all only: not_less simp_thms)
  have 2: "i = '''' \<longrightarrow> map_option Error (validateAgentID i) = Some ''agent_id is required''"
    using c(2) by simp
  have 3: "length i > 64 \<longrightarrow>
      map_option Error (validateAgentID i) = Some ''agent_id must be at most 64 characters''"
  proof
    assume l: "length i > 64"
    then have "i \<noteq> ''''" by auto
    with l c(3) show "map_option Error (validateAgentID i) =
        Some ''agent_id must be at most 64 characters''"
      by simp
  qed
  have 4: "i \<noteq> '''' \<and> length i \<le> 64 \<and> \<not> set i \<subseteq> ?S \<longrightarrow>
      map_option Error (validateAgentID i) =
        Some ''agent_id must match pattern ^[a-zA-Z0-9_-]+$''"
  proof
    assume h: "i \<noteq> '''' \<and> length i \<le> 64 \<and> \<not> set i \<subseteq> ?S"
    then have "\<not> agentIDPattern_MatchString i" using m by blast
    moreover from h have "\<not> length i > 64" by (simp only: not_less)
    ultimately have "validateAgentID i =
        Some (Errorf ''agent_id must match pattern ^[a-zA-Z0-9_-]+$'')"
      using c(4) h by blast
    then show "map_option Error (validateAgentID i) =
        Some ''agent_id must match pattern ^[a-zA-Z0-9_-]+$''"
      by simp
  qed
  have 5: "validateAgentID ''agent@invalid'' \<noteq> None"
    by (simp add: validateAgentID_agent_at_invalid)
  have 6: "length i = 65 \<longrightarrow> validateAgentID i \<noteq> None"
    by (auto simp add: validateAgentID_def)
  note 7 = validateAgentID_valid_ID_123
  from 1 2 3 4 5 6 7 show ?thesis by blast
qed

text \<open>
  The message for a character outside the class spells the class as the source's regular
  expression does, lower case first: it is not the text with \<^verbatim>\<open>A-Za-z\<close>.
\<close>

theorem validateAgentID_pattern_message_text:
  "\<not> (\<exists>e. validateAgentID ''agent@invalid'' = Some e \<and>
           Error e = ''agent_id must match pattern ^[A-Za-z0-9_-]+$'')"
  by (simp add: validateAgentID_agent_at_invalid)

text \<open>
  One id for each of the three failures, and one accepted id.
\<close>

theorem validateAgentID_spec_witness:
  "map_option Error (validateAgentID '''') = Some ''agent_id is required'' \<and>
   map_option Error (validateAgentID (replicate 65 CHR ''a'')) =
     Some ''agent_id must be at most 64 characters'' \<and>
   map_option Error (validateAgentID ''agent@invalid'') =
     Some ''agent_id must match pattern ^[a-zA-Z0-9_-]+$'' \<and>
   validateAgentID ''valid-ID_123'' = None"
proof -
  have 1: "map_option Error (validateAgentID '''') = Some ''agent_id is required''"
    using validateAgentID_spec [of "''''"] by blast
  have 2: "map_option Error (validateAgentID (replicate 65 CHR ''a'')) =
     Some ''agent_id must be at most 64 characters''"
    using validateAgentID_spec [of "replicate 65 CHR ''a''"] by simp
  have "\<not> set ''agent@invalid'' \<subseteq>
      set ''abcdefghijklmnopqrstuvwxyzABCDEFGHIJKLMNOPQRSTUVWXYZ0123456789_-''"
    by simp
  then have 3: "map_option Error (validateAgentID ''agent@invalid'') =
     Some ''agent_id must match pattern ^[a-zA-Z0-9_-]+$''"
    using validateAgentID_spec [of "''agent@invalid''"] by simp
  have 4: "validateAgentID ''valid-ID_123'' = None"
    using validateAgentID_spec [of "''valid-ID_123''"] by blast
  from 1 2 3 4 show ?thesis by blast
qed

section \<open>Registry service: proofs\<close>

text \<open>
  Claim C3. For every \<open>ListInput\<close>, the filter that \<open>List\<close> passes to the store
  has limit 20 when the input limit is at most 0, limit 100 when it is above 100, and the
  input limit otherwise; offset 0 when the input offset is negative and the input offset
  otherwise; tags, skills and query are those of the input. The store is arbitrary, so
  the call of \<open>ListAgents\<close> is the only thing \<open>List\<close> does.
\<close>

theorem List_normalizes_filter:
  "List svc input s =
     ListAgents (RegistryService.store svc)
       \<lparr>AgentFilter.Offset = (if ListInput.Offset input < 0 then 0 else ListInput.Offset input),
        Limit = (if ListInput.Limit input \<le> 0 then 20
                 else if ListInput.Limit input > 100 then 100
                 else ListInput.Limit input),
        Tags = ListInput.Tags input,
        Skills = ListInput.Skills input,
        Query = ListInput.Query input\<rparr> s"
  by (simp add: List_def Let_def)

text \<open>
  Three inputs on the in-memory store: a negative offset with limit 0, a limit of 101,
  and values already in range.
\<close>

theorem List_normalizes_filter_witness:
  "List (NewRegistryService MemoryStore_Store)
     \<lparr>ListInput.Offset = - 3, Limit = 0, Tags = [''prod''], Skills = [], Query = ''q''\<rparr>
     NewMemoryStore =
   MemoryStore_ListAgents
     \<lparr>AgentFilter.Offset = 0, Limit = 20, Tags = [''prod''], Skills = [], Query = ''q''\<rparr>
     NewMemoryStore \<and>
   List (NewRegistryService MemoryStore_Store)
     \<lparr>ListInput.Offset = 7, Limit = 101, Tags = [], Skills = [''translate''], Query = ''''\<rparr>
     NewMemoryStore =
   MemoryStore_ListAgents
     \<lparr>AgentFilter.Offset = 7, Limit = 100, Tags = [], Skills = [''translate''], Query = ''''\<rparr>
     NewMemoryStore \<and>
   List (NewRegistryService MemoryStore_Store)
     \<lparr>ListInput.Offset = 0, Limit = 100, Tags = [], Skills = [], Query = ''''\<rparr>
     NewMemoryStore =
   MemoryStore_ListAgents
     \<lparr>AgentFilter.Offset = 0, Limit = 100, Tags = [], Skills = [], Query = ''''\<rparr>
     NewMemoryStore"
  by (simp add: List_normalizes_filter NewRegistryService_def MemoryStore_Store_def)

text \<open>
  Claim C7. For every input whose id or card fails validation, \<open>Create\<close> returns the
  validation error and the state of the store is the one it was called with, whatever the
  store's methods are: none of them is called. An invalid id is reported whatever the card
  is, so with both invalid the id error is the one returned. Likewise \<open>Update\<close> with
  an invalid card returns the validation error and leaves the store as it was.
\<close>

theorem validation_fails_before_store:
  "(validateAgentID (CreateInput.ID input) = Some e \<longrightarrow>
      Create svc now input s = (Inl e, s)) \<and>
   (validateAgentID (CreateInput.ID input) = None \<and>
    ValidateAgentCard (CreateInput.Card input) = Some e \<longrightarrow>
      Create svc now input s = (Inl e, s)) \<and>
   (ValidateAgentCard (UpdateInput.Card uinput) = Some e \<longrightarrow>
      Update svc now uinput s = (Inl e, s))"
  by (simp add: Create_def Update_def)


text \<open>
  An invalid id with an invalid card, a valid id with an invalid card, and an update with
  an invalid card of an agent the store holds.
\<close>

theorem validation_fails_before_store_witness:
  "Create (NewRegistryService MemoryStore_Store) 1000
      \<lparr>CreateInput.ID = ''agent@invalid'',
       Card = \<lparr>AgentCard.Name = '''', Description = '''', URL = '''', Version = '''', Skills = []\<rparr>,
       Tags = [''test'']\<rparr> NewMemoryStore =
     (Inl (Errorf ''agent_id must match pattern ^[a-zA-Z0-9_-]+$''), NewMemoryStore) \<and>
   Create (NewRegistryService MemoryStore_Store) 1000
      \<lparr>CreateInput.ID = ''test-agent'',
       Card = \<lparr>AgentCard.Name = '''', Description = ''A test agent'',
               URL = ''http://localhost:9000'', Version = ''1.0.0'',
               Skills = [\<lparr>AgentSkill.ID = ''skill-1'', Name = ''Skill One''\<rparr>]\<rparr>,
       Tags = [''test'']\<rparr> NewMemoryStore =
     (Inl (Errorf ''invalid agent card: name is required''), NewMemoryStore) \<and>
   Update (NewRegistryService MemoryStore_Store) 1000
      \<lparr>UpdateInput.ID = ''test-agent'',
       Card = \<lparr>AgentCard.Name = '''', Description = ''A test agent'',
               URL = ''http://localhost:9000'', Version = ''1.0.0'',
               Skills = [\<lparr>AgentSkill.ID = ''skill-1'', Name = ''Skill One''\<rparr>]\<rparr>,
       Tags = []\<rparr>
      [\<lparr>RegisteredAgent.ID = ''test-agent'',
        Card = \<lparr>AgentCard.Name = ''Test Agent'', Description = ''A test agent'',
                URL = ''http://localhost:9000'', Version = ''1.0.0'',
                Skills = [\<lparr>AgentSkill.ID = ''skill-1'', Name = ''Skill One''\<rparr>]\<rparr>,
        Tags = [''test''], Embedding = None, CreatedAt = 500, UpdatedAt = 500\<rparr>] =
     (Inl (Errorf ''invalid agent card: name is required''),
      [\<lparr>RegisteredAgent.ID = ''test-agent'',
        Card = \<lparr>AgentCard.Name = ''Test Agent'', Description = ''A test agent'',
                URL = ''http://localhost:9000'', Version = ''1.0.0'',
                Skills = [\<lparr>AgentSkill.ID = ''skill-1'', Name = ''Skill One''\<rparr>]\<rparr>,
        Tags = [''test''], Embedding = None, CreatedAt = 500, UpdatedAt = 500\<rparr>])"
proof -
  let ?svc = "NewRegistryService MemoryStore_Store"
  let ?empty = "\<lparr>AgentCard.Name = '''', Description = '''', URL = '''', Version = '''', Skills = []\<rparr>"
  let ?noname = "\<lparr>AgentCard.Name = '''', Description = ''A test agent'',
               URL = ''http://localhost:9000'', Version = ''1.0.0'',
               Skills = [\<lparr>AgentSkill.ID = ''skill-1'', Name = ''Skill One''\<rparr>]\<rparr>"
  let ?e1 = "Errorf ''agent_id must match pattern ^[a-zA-Z0-9_-]+$''"
  let ?e2 = "Errorf ''invalid agent card: name is required''"
  have id1: "validateAgentID ''agent@invalid'' = Some ?e1"
    by (rule validateAgentID_agent_at_invalid)
  have id2: "validateAgentID ''test-agent'' = None"
    by (simp add: validateAgentID_def agentIDPattern_MatchString_def agentIDClass_def inRange_def)
  have card: "ValidateAgentCard ?noname = Some ?e2"
    by (simp add: ValidateAgentCard_def)
  have 1: "Create ?svc 1000 \<lparr>CreateInput.ID = ''agent@invalid'', Card = ?empty, Tags = [''test'']\<rparr>
      NewMemoryStore = (Inl ?e1, NewMemoryStore)"
    using id1
      validation_fails_before_store [of "\<lparr>CreateInput.ID = ''agent@invalid'', Card = ?empty,
        Tags = [''test'']\<rparr>" ?e1 ?svc 1000 NewMemoryStore]
    by simp
  have 2: "Create ?svc 1000 \<lparr>CreateInput.ID = ''test-agent'', Card = ?noname, Tags = [''test'']\<rparr>
      NewMemoryStore = (Inl ?e2, NewMemoryStore)"
    using id2 card
      validation_fails_before_store [of "\<lparr>CreateInput.ID = ''test-agent'', Card = ?noname,
        Tags = [''test'']\<rparr>" ?e2 ?svc 1000 NewMemoryStore]
    by simp
  let ?stored = "[\<lparr>RegisteredAgent.ID = ''test-agent'',
        Card = \<lparr>AgentCard.Name = ''Test Agent'', Description = ''A test agent'',
                URL = ''http://localhost:9000'', Version = ''1.0.0'',
                Skills = [\<lparr>AgentSkill.ID = ''skill-1'', Name = ''Skill One''\<rparr>]\<rparr>,
        Tags = [''test''], Embedding = None, CreatedAt = 500, UpdatedAt = 500\<rparr>]"
  have 3: "Update ?svc 1000 \<lparr>UpdateInput.ID = ''test-agent'', Card = ?noname, Tags = []\<rparr>
      ?stored = (Inl ?e2, ?stored)"
    using card
      validation_fails_before_store [where e = ?e2 and svc = ?svc and now = 1000
        and s = ?stored
        and uinput = "\<lparr>UpdateInput.ID = ''test-agent'', Card = ?noname, Tags = []\<rparr>"]
    by simp
  from 1 2 3 show ?thesis by blast
qed

section \<open>Health handler: proofs\<close>

text \<open>
  Claim C10. A \<open>HealthHandler\<close> constructed with a \<^verbatim>\<open>nil\<close> checker answers
  every request with status 200, status text \<^verbatim>\<open>healthy\<close> and check
  \<^verbatim>\<open>up\<close>, and leaves the world as it was: no probe is made. With a checker it
  answers 200, \<^verbatim>\<open>healthy\<close>, \<^verbatim>\<open>up\<close> exactly when \<^verbatim>\<open>Ping\<close>
  succeeds and 503, \<^verbatim>\<open>unhealthy\<close>, \<^verbatim>\<open>down\<close> exactly when
  \<^verbatim>\<open>Ping\<close> fails, and the world is the one that single probe leaves.
\<close>

theorem ServeHTTP_health:
  "ServeHTTP (NewHealthHandler None) w =
     (\<lparr>ContentType = ''application/json'', StatusCode = 200,
       Body = \<lparr>Status = ''healthy'', Checks = \<lparr>VectorStorage = ''up''\<rparr>\<rparr>\<rparr>, w) \<and>
   (fst (ServeHTTP (NewHealthHandler (Some checker)) w) =
      \<lparr>ContentType = ''application/json'', StatusCode = 200,
       Body = \<lparr>Status = ''healthy'', Checks = \<lparr>VectorStorage = ''up''\<rparr>\<rparr>\<rparr>
    \<longleftrightarrow> fst (checker w) = None) \<and>
   (fst (ServeHTTP (NewHealthHandler (Some checker)) w) =
      \<lparr>ContentType = ''application/json'', StatusCode = 503,
       Body = \<lparr>Status = ''unhealthy'', Checks = \<lparr>VectorStorage = ''down''\<rparr>\<rparr>\<rparr>
    \<longleftrightarrow> fst (checker w) \<noteq> None) \<and>
   snd (ServeHTTP (NewHealthHandler (Some checker)) w) = snd (checker w)"
  by (cases "checker w")
     (auto simp add: ServeHTTP_def NewHealthHandler_def StatusOK_def
        StatusServiceUnavailable_def Let_def split: option.splits)


section \<open>Qdrant store: proofs\<close>

lemma QdrantStore_Ping_Some:
  "QdrantStore_Ping q \<lparr>client = Some c\<rparr> w =
     (case HealthCheck q c w of
        (Some err, w') \<Rightarrow> (Returns (Some (Wrapf ''qdrant health check failed'' err)), w')
      | (None, w') \<Rightarrow> (Returns None, w'))"
  by (simp add: QdrantStore_Ping_def)

text \<open>
  Claim C9. \<open>NewQdrantStore\<close> probes the health of the server during construction:
  when the client has been created and the probe fails, it returns an error that wraps the
  probe's, after closing the client (the world is the one \<^verbatim>\<open>Close\<close> leaves).
  Whenever it returns a store, the client of that store was created by this call and the
  probe on it succeeded.
\<close>

theorem NewQdrantStore_fails_fast:
  "(NewClient q
      (let options = foldl (\<lambda>options opt. opt options) DefaultOptions opts
       in \<lparr>qdrant_Config.Host = Options.Host options, Port = Options.Port options,
           APIKey = Options.APIKey options, UseTLS = Options.UseTLS options\<rparr>) w = (Inr c, w1) \<and>
    HealthCheck q c w1 = (Some err, w2) \<longrightarrow>
      NewQdrantStore q opts w =
        (Returns (Inl (Wrapf ''failed to connect to qdrant''
                         (Wrapf ''qdrant health check failed'' err))),
         snd (qdrant.Close q c w2))) \<and>
   (NewQdrantStore q opts w = (Returns (Inr st), w') \<longrightarrow>
      (\<exists>c w1.
         NewClient q
           (let options = foldl (\<lambda>options opt. opt options) DefaultOptions opts
            in \<lparr>qdrant_Config.Host = Options.Host options, Port = Options.Port options,
                APIKey = Options.APIKey options, UseTLS = Options.UseTLS options\<rparr>) w =
           (Inr c, w1) \<and>
         HealthCheck q c w1 = (None, w') \<and>
         st = \<lparr>client = Some c\<rparr>))"
  by (auto simp add: NewQdrantStore_def QdrantStore_Ping_Some QdrantStore_Close_def Let_def
        split: prod.splits sum.splits option.splits outcome.splits)


text \<open>
  Two clients that log their calls: one whose server refuses the probe (the log ends with
  the call of \<^verbatim>\<open>Close\<close>), one whose server answers.
\<close>

theorem NewQdrantStore_fails_fast_witness:
  "NewQdrantStore
     \<lparr>NewClient = (\<lambda>cfg w. (Inr (7::nat), w @ [''NewClient '' @ qdrant_Config.Host cfg])),
      HealthCheck = (\<lambda>c w. (Some (Errorf ''connection refused''), w @ [''HealthCheck''])),
      Close = (\<lambda>c w. (None, w @ [''Close'']))\<rparr>
     [WithHost ''qdrant.internal'', WithTLS True] [] =
     (Returns (Inl (Wrapf ''failed to connect to qdrant''
                      (Wrapf ''qdrant health check failed'' (Errorf ''connection refused'')))),
      [''NewClient qdrant.internal'', ''HealthCheck'', ''Close'']) \<and>
   (\<exists>c w1.
      NewQdrantStore
        \<lparr>NewClient = (\<lambda>cfg w. (Inr (7::nat), w @ [''NewClient '' @ qdrant_Config.Host cfg])),
         HealthCheck = (\<lambda>c w. (None, w @ [''HealthCheck''])),
         Close = (\<lambda>c w. (None, w @ [''Close'']))\<rparr> [] [] =
        (Returns (Inr \<lparr>client = Some c\<rparr>), w1 @ [''HealthCheck'']) \<and>
      c = 7 \<and> w1 = [''NewClient localhost''])"
proof -
  let ?down = "\<lparr>NewClient = (\<lambda>cfg w. (Inr (7::nat), w @ [''NewClient '' @ qdrant_Config.Host cfg])),
      HealthCheck = (\<lambda>c w. (Some (Errorf ''connection refused''), w @ [''HealthCheck''])),
      Close = (\<lambda>c w. (None, w @ [''Close'']))\<rparr>"
  let ?up = "\<lparr>NewClient = (\<lambda>cfg w. (Inr (7::nat), w @ [''NewClient '' @ qdrant_Config.Host cfg])),
      HealthCheck = (\<lambda>c w. (None, w @ [''HealthCheck''])),
      Close = (\<lambda>c w. (None, w @ [''Close'']))\<rparr>"
  have 1: "NewQdrantStore ?down [WithHost ''qdrant.internal'', WithTLS True] [] =
     (Returns (Inl (Wrapf ''failed to connect to qdrant''
                      (Wrapf ''qdrant health check failed'' (Errorf ''connection refused'')))),
      [''NewClient qdrant.internal'', ''HealthCheck'', ''Close''])"
    using NewQdrantStore_fails_fast
            [of ?down "[WithHost ''qdrant.internal'', WithTLS True]" "[]" 7
                "[''NewClient qdrant.internal'']" "Errorf ''connection refused''"
                "[''NewClient qdrant.internal'', ''HealthCheck'']"]
    by (simp add: WithHost_def WithTLS_def DefaultOptions_def)
  have run: "NewQdrantStore ?up [] [] =
      (Returns (Inr \<lparr>client = Some 7\<rparr>), [''NewClient localhost'', ''HealthCheck''])"
    by (simp add: NewQdrantStore_def QdrantStore_Ping_def DefaultOptions_def)
  with NewQdrantStore_fails_fast
         [of ?up "[]" "[]" 7 "[''NewClient qdrant.internal'']" "Errorf ''connection refused''"
             "[''NewClient qdrant.internal'', ''HealthCheck'']" "\<lparr>client = Some 7\<rparr>"
             "[''NewClient localhost'', ''HealthCheck'']"]
  have 2: "\<exists>c w1. NewQdrantStore ?up [] [] =
        (Returns (Inr \<lparr>client = Some c\<rparr>), w1 @ [''HealthCheck'']) \<and>
      c = 7 \<and> w1 = [''NewClient localhost'']"
    by (simp add: DefaultOptions_def)
  from 1 2 show ?thesis by (rule conjI)
qed

section \<open>Registry service on the in-memory store: proofs\<close>

lemma lookupAgent_None_iff:
  "lookupAgent i s = None \<longleftrightarrow> i \<notin> set (map RegisteredAgent.ID s)"
  by (auto simp add: lookupAgent_def find_None_iff)

lemma lookupAgent_Some_ID: "lookupAgent i s = Some a \<Longrightarrow> RegisteredAgent.ID a = i"
  by (auto simp add: lookupAgent_def find_Some_iff)

lemma lookupAgent_append_new:
  "lookupAgent i s = None \<Longrightarrow> lookupAgent i (s @ [a]) = (if RegisteredAgent.ID a = i then Some a else None)"
  unfolding lookupAgent_def by (induction s) (auto split: if_splits)

lemma lookupAgent_replace:
  "lookupAgent i s = Some old \<Longrightarrow> RegisteredAgent.ID a = i \<Longrightarrow>
   lookupAgent i (map (\<lambda>b. if RegisteredAgent.ID b = RegisteredAgent.ID a then a else b) s) = Some a"
  unfolding lookupAgent_def by (induction s) (auto split: if_splits)

lemma Create_valid:
  assumes "validateAgentID (CreateInput.ID input) = None"
      and "ValidateAgentCard (CreateInput.Card input) = None"
  shows "Create svc now input s =
     (let agent = \<lparr>RegisteredAgent.ID = CreateInput.ID input, Card = CreateInput.Card input,
                   Tags = CreateInput.Tags input, Embedding = None,
                   CreatedAt = now, UpdatedAt = now\<rparr>
      in case CreateAgent (RegistryService.store svc) agent s of
           (Some err, s') \<Rightarrow> (Inl err, s')
         | (None, s') \<Rightarrow> (Inr agent, s'))"
  using assms by (simp add: Create_def)

lemma Update_valid:
  assumes "ValidateAgentCard (UpdateInput.Card input) = None"
      and "GetAgent (RegistryService.store svc) (UpdateInput.ID input) s = (Inr existing, s1)"
  shows "Update svc now input s =
     (let agent = existing\<lparr>RegisteredAgent.Card := UpdateInput.Card input,
                           RegisteredAgent.Tags := UpdateInput.Tags input,
                           Embedding := None, UpdatedAt := now\<rparr>
      in case UpdateAgent (RegistryService.store svc) agent s1 of
           (Some err, s2) \<Rightarrow> (Inl err, s2)
         | (None, s2) \<Rightarrow> (Inr agent, s2))"
  using assms by (simp add: Update_def Let_def)

lemma store_MemoryStore [simp]:
  "CreateAgent (RegistryService.store (NewRegistryService MemoryStore_Store)) = MemoryStore_CreateAgent"
  "GetAgent (RegistryService.store (NewRegistryService MemoryStore_Store)) = MemoryStore_GetAgent"
  "UpdateAgent (RegistryService.store (NewRegistryService MemoryStore_Store)) = MemoryStore_UpdateAgent"
  "DeleteAgent (RegistryService.store (NewRegistryService MemoryStore_Store)) = MemoryStore_DeleteAgent"
  "ListAgents (RegistryService.store (NewRegistryService MemoryStore_Store)) = MemoryStore_ListAgents"
  by (simp_all add: NewRegistryService_def MemoryStore_Store_def)

text \<open>
  Claim C1, as amended. On the in-memory store, for every input with a valid id and a
  valid card whose id the store does not hold yet, \<open>Create\<close> succeeds, and the
  record it returns, which is also the record a following \<open>Get\<close> returns, has the
  id, card and tags of the input, no embedding, and \<open>createdAt\<close> equal to
  \<open>updatedAt\<close>.
\<close>

theorem Create_then_Get:
  assumes "validateAgentID (CreateInput.ID input) = None"
      and "ValidateAgentCard (CreateInput.Card input) = None"
      and "CreateInput.ID input \<notin> set (map RegisteredAgent.ID s)"
  shows "\<exists>a s'. Create (NewRegistryService MemoryStore_Store) now input s = (Inr a, s') \<and>
           Get (NewRegistryService MemoryStore_Store) (CreateInput.ID input) s' = (Inr a, s') \<and>
           RegisteredAgent.ID a = CreateInput.ID input \<and>
           RegisteredAgent.Card a = CreateInput.Card input \<and>
           RegisteredAgent.Tags a = CreateInput.Tags input \<and>
           Embedding a = None \<and>
           CreatedAt a = UpdatedAt a"
proof -
  let ?a = "\<lparr>RegisteredAgent.ID = CreateInput.ID input, Card = CreateInput.Card input,
             Tags = CreateInput.Tags input, Embedding = None,
             CreatedAt = now, UpdatedAt = now\<rparr>"
  from assms(3) have absent: "lookupAgent (CreateInput.ID input) s = None"
    by (simp add: lookupAgent_None_iff)
  then have "MemoryStore_CreateAgent ?a s = (None, s @ [?a])"
    by (simp add: MemoryStore_CreateAgent_def)
  then have c: "Create (NewRegistryService MemoryStore_Store) now input s = (Inr ?a, s @ [?a])"
    by (simp add: Create_valid [OF assms(1,2)] Let_def)
  have g: "Get (NewRegistryService MemoryStore_Store) (CreateInput.ID input) (s @ [?a]) =
      (Inr ?a, s @ [?a])"
    by (simp add: Get_def MemoryStore_GetAgent_def lookupAgent_append_new [OF absent])
  from c g show ?thesis by simp
qed

text \<open>
  Claim C2, as amended. On the in-memory store, for every agent \<open>old\<close> the store
  holds and every valid card, \<open>Update\<close> succeeds; the record it returns, which is
  the one the store holds afterwards, has the card and tags of the input and no embedding
  whatever embedding \<open>old\<close> had, has the \<open>createdAt\<close> of \<open>old\<close>, and its
  \<open>updatedAt\<close> is the clock reading of the call: it is strictly greater than that of
  \<open>old\<close> when the reading is.
\<close>

theorem Update_replaces_card:
  assumes "Get (NewRegistryService MemoryStore_Store) (UpdateInput.ID input) s = (Inr old, s)"
      and "ValidateAgentCard (UpdateInput.Card input) = None"
  shows "\<exists>a' s'. Update (NewRegistryService MemoryStore_Store) now input s = (Inr a', s') \<and>
           Get (NewRegistryService MemoryStore_Store) (UpdateInput.ID input) s' = (Inr a', s') \<and>
           RegisteredAgent.ID a' = UpdateInput.ID input \<and>
           RegisteredAgent.Card a' = UpdateInput.Card input \<and>
           RegisteredAgent.Tags a' = UpdateInput.Tags input \<and>
           Embedding a' = None \<and>
           CreatedAt a' = CreatedAt old \<and>
           UpdatedAt a' = now \<and>
           (UpdatedAt old < now \<longrightarrow> UpdatedAt old < UpdatedAt a')"
proof -
  let ?a = "old\<lparr>RegisteredAgent.Card := UpdateInput.Card input,
                RegisteredAgent.Tags := UpdateInput.Tags input,
                Embedding := None, UpdatedAt := now\<rparr>"
  let ?s = "map (\<lambda>b. if RegisteredAgent.ID b = RegisteredAgent.ID ?a then ?a else b) s"
  from assms(1) have found: "lookupAgent (UpdateInput.ID input) s = Some old"
    by (simp add: Get_def MemoryStore_GetAgent_def split: option.splits)
  then have id_old: "RegisteredAgent.ID old = UpdateInput.ID input"
    by (rule lookupAgent_Some_ID)
  from assms(1) have get: "GetAgent (RegistryService.store (NewRegistryService MemoryStore_Store))
      (UpdateInput.ID input) s = (Inr old, s)"
    by (simp add: Get_def)
  have "MemoryStore_UpdateAgent ?a s = (None, ?s)"
    using found id_old by (simp add: MemoryStore_UpdateAgent_def)
  then have u: "Update (NewRegistryService MemoryStore_Store) now input s = (Inr ?a, ?s)"
    by (simp add: Update_valid [OF assms(2) get] Let_def)
  have "lookupAgent (UpdateInput.ID input) ?s = Some ?a"
    using found id_old by (intro lookupAgent_replace) simp_all
  then have g: "Get (NewRegistryService MemoryStore_Store) (UpdateInput.ID input) ?s = (Inr ?a, ?s)"
    by (simp add: Get_def MemoryStore_GetAgent_def)
  from u g id_old show ?thesis by simp
qed


lemma validateAgentID_test_agent: "validateAgentID ''test-agent'' = None"
  by (simp add: validateAgentID_def agentIDPattern_MatchString_def agentIDClass_def inRange_def)

lemma ValidateAgentCard_validAgentCard: "ValidateAgentCard validAgentCard = None"
  by (simp add: ValidateAgentCard_def validAgentCard_def)

lemma ValidateAgentCard_renamed:
  "ValidateAgentCard (validAgentCard\<lparr>AgentCard.Name := ''Updated Name''\<rparr>) = None"
  by (simp add: ValidateAgentCard_def validAgentCard_def)

text \<open>
  The valid input of the tests on the empty store.
\<close>

theorem Create_then_Get_witness:
  "\<exists>a s'. Create (NewRegistryService MemoryStore_Store) 1000 validCreateInput NewMemoryStore =
             (Inr a, s') \<and>
           Get (NewRegistryService MemoryStore_Store) ''test-agent'' s' = (Inr a, s') \<and>
           RegisteredAgent.ID a = ''test-agent'' \<and>
           RegisteredAgent.Card a = validAgentCard \<and>
           RegisteredAgent.Tags a = [''test''] \<and>
           Embedding a = None \<and>
           CreatedAt a = UpdatedAt a"
  using Create_then_Get [of validCreateInput NewMemoryStore 1000]
  by (simp add: validCreateInput_def NewMemoryStore_def validateAgentID_test_agent
        ValidateAgentCard_validAgentCard)

text \<open>
  A valid id and a valid card are not enough for \<open>Create\<close> to succeed: creating
  the valid input of the tests a second time fails with \<open>ErrAlreadyExists\<close>, as the
  test of the duplicate expects, and the store keeps the first record.
\<close>

theorem Create_duplicate_id_fails:
  "validateAgentID (CreateInput.ID validCreateInput) = None \<and>
   ValidateAgentCard (CreateInput.Card validCreateInput) = None \<and>
   Create (NewRegistryService MemoryStore_Store) 1000 validCreateInput NewMemoryStore =
     (Inr \<lparr>RegisteredAgent.ID = ''test-agent'', Card = validAgentCard, Tags = [''test''],
           Embedding = None, CreatedAt = 1000, UpdatedAt = 1000\<rparr>,
      [\<lparr>RegisteredAgent.ID = ''test-agent'', Card = validAgentCard, Tags = [''test''],
        Embedding = None, CreatedAt = 1000, UpdatedAt = 1000\<rparr>]) \<and>
   Create (NewRegistryService MemoryStore_Store) 2000 validCreateInput
     [\<lparr>RegisteredAgent.ID = ''test-agent'', Card = validAgentCard, Tags = [''test''],
       Embedding = None, CreatedAt = 1000, UpdatedAt = 1000\<rparr>] =
     (Inl ErrAlreadyExists,
      [\<lparr>RegisteredAgent.ID = ''test-agent'', Card = validAgentCard, Tags = [''test''],
        Embedding = None, CreatedAt = 1000, UpdatedAt = 1000\<rparr>])"
  by (simp add: Create_def Let_def validCreateInput_def NewMemoryStore_def
        validateAgentID_test_agent ValidateAgentCard_validAgentCard
        MemoryStore_CreateAgent_def lookupAgent_def)

text \<open>
  An agent created at 500 and last updated at 700 that has an embedding, updated at 1000
  with a renamed card and new tags.
\<close>

theorem Update_replaces_card_witness:
  "\<exists>a' s'. Update (NewRegistryService MemoryStore_Store) 1000
              \<lparr>UpdateInput.ID = ''test-agent'',
               Card = validAgentCard\<lparr>AgentCard.Name := ''Updated Name''\<rparr>,
               Tags = [''updated'']\<rparr>
              [\<lparr>RegisteredAgent.ID = ''test-agent'', Card = validAgentCard, Tags = [''test''],
                Embedding = Some [1, 2, 3], CreatedAt = 500, UpdatedAt = 700\<rparr>] = (Inr a', s') \<and>
            Get (NewRegistryService MemoryStore_Store) ''test-agent'' s' = (Inr a', s') \<and>
            RegisteredAgent.ID a' = ''test-agent'' \<and>
            RegisteredAgent.Card a' = validAgentCard\<lparr>AgentCard.Name := ''Updated Name''\<rparr> \<and>
            RegisteredAgent.Tags a' = [''updated''] \<and>
            Embedding a' = None \<and>
            CreatedAt a' = 500 \<and>
            UpdatedAt a' = 1000 \<and>
            (700::int) < UpdatedAt a'"
proof -
  let ?old = "\<lparr>RegisteredAgent.ID = ''test-agent'', Card = validAgentCard, Tags = [''test''],
                Embedding = Some [1, 2, 3], CreatedAt = 500, UpdatedAt = 700\<rparr>"
  let ?input = "\<lparr>UpdateInput.ID = ''test-agent'',
               Card = validAgentCard\<lparr>AgentCard.Name := ''Updated Name''\<rparr>,
               Tags = [''updated'']\<rparr>"
  have g: "Get (NewRegistryService MemoryStore_Store) (UpdateInput.ID ?input) [?old] =
      (Inr ?old, [?old])"
    by (simp add: Get_def MemoryStore_GetAgent_def lookupAgent_def)
  have v: "ValidateAgentCard (UpdateInput.Card ?input) = None"
    by (simp add: ValidateAgentCard_renamed)
  from Update_replaces_card [OF g v, of 1000] show ?thesis by simp
qed

text \<open>
  \<open>Update\<close> writes the clock reading and compares nothing. On a record whose
  \<open>updatedAt\<close> is ahead of the clock (stamped by another clock, or written through the
  store directly, as the store's tests write \<open>createdAt\<close>) the new \<open>updatedAt\<close>
  is smaller, and with the reading that \<open>Create\<close> got it is equal.
\<close>

theorem Update_updatedAt_is_clock_reading:
  "Update (NewRegistryService MemoryStore_Store) 600
     \<lparr>UpdateInput.ID = ''test-agent'', Card = validAgentCard, Tags = [''updated'']\<rparr>
     [\<lparr>RegisteredAgent.ID = ''test-agent'', Card = validAgentCard, Tags = [''test''],
       Embedding = None, CreatedAt = 500, UpdatedAt = 700\<rparr>] =
     (Inr \<lparr>RegisteredAgent.ID = ''test-agent'', Card = validAgentCard, Tags = [''updated''],
           Embedding = None, CreatedAt = 500, UpdatedAt = 600\<rparr>,
      [\<lparr>RegisteredAgent.ID = ''test-agent'', Card = validAgentCard, Tags = [''updated''],
        Embedding = None, CreatedAt = 500, UpdatedAt = 600\<rparr>]) \<and>
   \<not> UpdatedAt \<lparr>RegisteredAgent.ID = ''test-agent'', Card = validAgentCard, Tags = [''test''],
                 Embedding = None, CreatedAt = 500, UpdatedAt = 700\<rparr>
     < UpdatedAt \<lparr>RegisteredAgent.ID = ''test-agent'', Card = validAgentCard,
                   Tags = [''updated''], Embedding = None, CreatedAt = 500, UpdatedAt = 600\<rparr> \<and>
   Create (NewRegistryService MemoryStore_Store) 1000 validCreateInput NewMemoryStore =
     (Inr \<lparr>RegisteredAgent.ID = ''test-agent'', Card = validAgentCard, Tags = [''test''],
           Embedding = None, CreatedAt = 1000, UpdatedAt = 1000\<rparr>,
      [\<lparr>RegisteredAgent.ID = ''test-agent'', Card = validAgentCard, Tags = [''test''],
        Embedding = None, CreatedAt = 1000, UpdatedAt = 1000\<rparr>]) \<and>
   Update (NewRegistryService MemoryStore_Store) 1000
     \<lparr>UpdateInput.ID = ''test-agent'', Card = validAgentCard, Tags = [''updated'']\<rparr>
     [\<lparr>RegisteredAgent.ID = ''test-agent'', Card = validAgentCard, Tags = [''test''],
       Embedding = None, CreatedAt = 1000, UpdatedAt = 1000\<rparr>] =
     (Inr \<lparr>RegisteredAgent.ID = ''test-agent'', Card = validAgentCard, Tags = [''updated''],
           Embedding = None, CreatedAt = 1000, UpdatedAt = 1000\<rparr>,
      [\<lparr>RegisteredAgent.ID = ''test-agent'', Card = validAgentCard, Tags = [''updated''],
        Embedding = None, CreatedAt = 1000, UpdatedAt = 1000\<rparr>])"
  by (simp add: Update_def Create_def Let_def validCreateInput_def NewMemoryStore_def
        validateAgentID_test_agent ValidateAgentCard_validAgentCard
        MemoryStore_GetAgent_def MemoryStore_UpdateAgent_def MemoryStore_CreateAgent_def
        lookupAgent_def)

subsection \<open>Listing\<close>

lemma insertNewestFirst_insort_key:
  "insertNewestFirst a bs = insort_key (\<lambda>a. - CreatedAt a) a bs"
  by (induction bs) simp_all

lemma sortNewestFirst_sort_key: "sortNewestFirst xs = sort_key (\<lambda>a. - CreatedAt a) xs"
  by (induction xs) (simp_all add: insertNewestFirst_insort_key)

lemma mset_sortNewestFirst: "mset (sortNewestFirst xs) = mset xs"
  by (simp add: sortNewestFirst_sort_key)

lemma length_sortNewestFirst: "length (sortNewestFirst xs) = length xs"
  by (simp add: sortNewestFirst_sort_key)

lemma sorted_sortNewestFirst:
  "sorted_wrt (\<lambda>a b. CreatedAt a \<ge> CreatedAt b) (sortNewestFirst xs)"
proof -
  have "sorted (map (\<lambda>a. - CreatedAt a) (sortNewestFirst xs))"
    by (simp add: sortNewestFirst_sort_key)
  then show ?thesis by (simp add: sorted_map)
qed

lemma stable_sortNewestFirst:
  "filter (\<lambda>a. CreatedAt a = t) (sortNewestFirst xs) = filter (\<lambda>a. CreatedAt a = t) xs"
proof -
  have "filter (\<lambda>a. - CreatedAt a = - t) (sort_key (\<lambda>a. - CreatedAt a) xs) =
      filter (\<lambda>a. - CreatedAt a = - t) xs"
    by (rule sort_key_stable)
  then show ?thesis by (simp add: sortNewestFirst_sort_key)
qed

lemma page_take_drop:
  assumes "offset < int (length xs)"
  shows "take (nat (min (int (length xs)) (max 0 offset + max 0 limit) - max 0 offset))
           (drop (nat (max 0 offset)) xs) =
         take (nat limit) (drop (nat offset) xs)"
proof -
  have d: "nat (max 0 offset) = nat offset" by simp
  show ?thesis
  proof (cases "max 0 offset + max 0 limit \<le> int (length xs)")
    case True
    then have "nat (min (int (length xs)) (max 0 offset + max 0 limit) - max 0 offset) = nat limit"
      by (simp add: min_def max_def)
    then show ?thesis by (simp only: d)
  next
    case False
    then have a: "nat (min (int (length xs)) (max 0 offset + max 0 limit) - max 0 offset) =
        length xs - nat offset"
      using assms by (simp add: min_def max_def) linarith
    from False have "length (drop (nat offset) xs) \<le> nat limit"
      by (simp add: max_def split: if_splits)
    then show ?thesis by (simp add: a d)
  qed
qed

text \<open>
  Claim C8. For every store content and filter, \<open>ListAgents\<close> of the in-memory
  store returns as total the number of records that match the filter, before pagination.
  The page is the matched records sorted by \<open>createdAt\<close> descending, without the
  first \<open>offset\<close> records and cut after \<open>limit\<close> records. The sorted sequence
  has the same records as the matched one, every record is at least as new as those after
  it, and the records of one instant keep the order of insertion. When the offset is at
  least the total, the page is empty and the total is still the number of matches.
\<close>

theorem MemoryStore_ListAgents_page:
  "MemoryStore_ListAgents f s =
     (Inr \<lparr>Agents = take (nat (AgentFilter.Limit f))
                      (drop (nat (AgentFilter.Offset f))
                         (sortNewestFirst (filter (matchesFilter f) s))),
           Total = int (length (filter (matchesFilter f) s))\<rparr>, s) \<and>
   mset (sortNewestFirst (filter (matchesFilter f) s)) = mset (filter (matchesFilter f) s) \<and>
   sorted_wrt (\<lambda>a b. CreatedAt a \<ge> CreatedAt b) (sortNewestFirst (filter (matchesFilter f) s)) \<and>
   (\<forall>t. filter (\<lambda>a. CreatedAt a = t) (sortNewestFirst (filter (matchesFilter f) s)) =
        filter (\<lambda>a. CreatedAt a = t) (filter (matchesFilter f) s)) \<and>
   (AgentFilter.Offset f \<ge> int (length (filter (matchesFilter f) s)) \<longrightarrow>
      MemoryStore_ListAgents f s =
        (Inr \<lparr>Agents = [], Total = int (length (filter (matchesFilter f) s))\<rparr>, s))"
proof -
  let ?m = "filter (matchesFilter f) s"
  let ?sorted = "sortNewestFirst ?m"
  have len: "length ?sorted = length ?m" by (rule length_sortNewestFirst)
  have empty: "MemoryStore_ListAgents f s = (Inr \<lparr>Agents = [], Total = int (length ?m)\<rparr>, s)"
    if "AgentFilter.Offset f \<ge> int (length ?m)"
    using that by (simp add: MemoryStore_ListAgents_def Let_def len)
  have page: "MemoryStore_ListAgents f s =
     (Inr \<lparr>Agents = take (nat (AgentFilter.Limit f)) (drop (nat (AgentFilter.Offset f)) ?sorted),
           Total = int (length ?m)\<rparr>, s)"
  proof (cases "AgentFilter.Offset f \<ge> int (length ?m)")
    case True
    then have "drop (nat (AgentFilter.Offset f)) ?sorted = []" by (simp add: len)
    with empty [OF True] show ?thesis by simp
  next
    case False
    then have lt: "AgentFilter.Offset f < int (length ?sorted)" by (simp add: len)
    have pt: "take (nat (min (int (length ?m))
                   (max 0 (AgentFilter.Offset f) + max 0 (AgentFilter.Limit f)) -
                 max 0 (AgentFilter.Offset f)))
          (drop (nat (max 0 (AgentFilter.Offset f))) ?sorted) =
        take (nat (AgentFilter.Limit f)) (drop (nat (AgentFilter.Offset f)) ?sorted)"
      using page_take_drop [OF lt] by (simp only: len)
    from False show ?thesis
      by (simp add: MemoryStore_ListAgents_def Let_def len pt)
  qed
  from empty have empty': "AgentFilter.Offset f \<ge> int (length ?m) \<longrightarrow>
      MemoryStore_ListAgents f s = (Inr \<lparr>Agents = [], Total = int (length ?m)\<rparr>, s)"
    by blast
  have stable: "\<forall>t. filter (\<lambda>a. CreatedAt a = t) ?sorted = filter (\<lambda>a. CreatedAt a = t) ?m"
    by (simp only: stable_sortNewestFirst simp_thms)
  from page mset_sortNewestFirst [of ?m] sorted_sortNewestFirst [of ?m] stable empty'
  show ?thesis by (intro conjI)
qed

text \<open>
  Four records inserted in the order a, b, c, d with instants 10, 20, 10, 30: the second
  and third of the newest-first order are b and a (a before c, inserted later at the
  same instant); with offset 4 the page is empty and the total still 4.
\<close>

theorem MemoryStore_ListAgents_page_witness:
  "MemoryStore_ListAgents
     \<lparr>AgentFilter.Offset = 1, Limit = 2, Tags = [], Skills = [], Query = ''''\<rparr>
     [validAgent ''agent-a'' 10, validAgent ''agent-b'' 20, validAgent ''agent-c'' 10,
      validAgent ''agent-d'' 30] =
     (Inr \<lparr>Agents = [validAgent ''agent-b'' 20, validAgent ''agent-a'' 10], Total = 4\<rparr>,
      [validAgent ''agent-a'' 10, validAgent ''agent-b'' 20, validAgent ''agent-c'' 10,
       validAgent ''agent-d'' 30]) \<and>
   MemoryStore_ListAgents
     \<lparr>AgentFilter.Offset = 4, Limit = 2, Tags = [], Skills = [], Query = ''''\<rparr>
     [validAgent ''agent-a'' 10, validAgent ''agent-b'' 20, validAgent ''agent-c'' 10,
      validAgent ''agent-d'' 30] =
     (Inr \<lparr>Agents = [], Total = 4\<rparr>,
      [validAgent ''agent-a'' 10, validAgent ''agent-b'' 20, validAgent ''agent-c'' 10,
       validAgent ''agent-d'' 30])"
proof -
  let ?s = "[validAgent ''agent-a'' 10, validAgent ''agent-b'' 20, validAgent ''agent-c'' 10,
      validAgent ''agent-d'' 30]"
  let ?f1 = "\<lparr>AgentFilter.Offset = 1, Limit = 2, Tags = [], Skills = [], Query = ''''\<rparr>"
  let ?f4 = "\<lparr>AgentFilter.Offset = 4, Limit = 2, Tags = [], Skills = [], Query = ''''\<rparr>"
  have m1: "filter (matchesFilter ?f1) ?s = ?s"
    by (simp add: matchesFilter_def matchesTags_def matchesSkills_def matchesQuery_def)
  have m4: "filter (matchesFilter ?f4) ?s = ?s"
    by (simp add: matchesFilter_def matchesTags_def matchesSkills_def matchesQuery_def)
  have srt: "sortNewestFirst ?s =
      [validAgent ''agent-d'' 30, validAgent ''agent-b'' 20, validAgent ''agent-a'' 10,
       validAgent ''agent-c'' 10]"
    by (simp add: validAgent_def)
  have 1: "MemoryStore_ListAgents ?f1 ?s =
     (Inr \<lparr>Agents = [validAgent ''agent-b'' 20, validAgent ''agent-a'' 10], Total = 4\<rparr>, ?s)"
    using MemoryStore_ListAgents_page [of ?f1 ?s] unfolding m1 srt by simp
  have 2: "MemoryStore_ListAgents ?f4 ?s = (Inr \<lparr>Agents = [], Total = 4\<rparr>, ?s)"
    using MemoryStore_ListAgents_page [of ?f4 ?s] unfolding m4 srt by simp
  from 1 2 show ?thesis by (rule conjI)
qed

end
